theory Spec2Isabelle
  imports Complex_Main
begin

section \<open>The track of a single target (libs/deep\_sort/track.py)\<close>

subsection \<open>Data model\<close>

text \<open>
  \<^verbatim>\<open>class TrackState\<close>: three integer constants used as an enumeration
  (\<^verbatim>\<open>Tentative = 1\<close>, \<^verbatim>\<open>Confirmed = 2\<close>, \<^verbatim>\<open>Deleted = 3\<close>). The code only ever
  compares them for equality.
\<close>

datatype TrackState = Tentative | Confirmed | Deleted

text \<open>
  \<^verbatim>\<open>class Track\<close>: every attribute that \<^verbatim>\<open>__init__\<close> assigns is a field. Python's
  integers are unbounded, so the counters are \<^typ>\<open>int\<close>. The attributes the class only
  stores or hands on (\<^verbatim>\<open>cfg\<close>, \<^verbatim>\<open>mean\<close>, \<^verbatim>\<open>covariance\<close>, the three \<^verbatim>\<open>det_*\<close> values)
  are type parameters. A feature is an \<^verbatim>\<open>Optional[ndarray]\<close>: \<^verbatim>\<open>None\<close> is
  \<^term>\<open>None\<close>. The private attributes \<^verbatim>\<open>_n_init\<close> and \<^verbatim>\<open>_max_age\<close> lose their
  leading underscore.
\<close>

record ('g, 'm, 'c, 'd, 'k, 'b, 'f) Track =
  cfg :: 'g
  mean :: 'm
  covariance :: 'c
  track_id :: int
  hits :: int
  age :: int
  time_since_update :: int
  det_confidence :: 'd
  det_class :: 'k
  det_best_bbox :: 'b
  state :: TrackState
  features :: "'f option list"
  n_init :: int
  max_age :: int
  track_line :: "(int \<times> int) list"

text \<open>
  The Kalman filter and the detection are objects of other modules. The track calls
  \<^verbatim>\<open>kf.predict(mean, covariance)\<close> and \<^verbatim>\<open>kf.update(mean, covariance, measurement)\<close>, each
  returning a pair, and reads \<^verbatim>\<open>detection.to_xyah()\<close> and \<^verbatim>\<open>detection.feature\<close>; they are
  taken as parameters.
\<close>

record ('m, 'c, 'z) KalmanFilter =
  kf_predict :: "'m \<Rightarrow> 'c \<Rightarrow> 'm \<times> 'c"
  kf_update :: "'m \<Rightarrow> 'c \<Rightarrow> 'z \<Rightarrow> 'm \<times> 'c"

record ('z, 'f) Detection =
  to_xyah :: 'z
  feature :: "'f option"

subsection \<open>Operations\<close>

text \<open>\<^verbatim>\<open>Track.__init__\<close>; the argument \<^verbatim>\<open>feature=None\<close> is an option.\<close>

definition init ::
  "'g \<Rightarrow> 'm \<Rightarrow> 'c \<Rightarrow> int \<Rightarrow> int \<Rightarrow> int \<Rightarrow> 'd \<Rightarrow> 'k \<Rightarrow> 'b \<Rightarrow> 'f option
    \<Rightarrow> ('g, 'm, 'c, 'd, 'k, 'b, 'f) Track" where
  "init cfg0 mean0 covariance0 track_id0 n_init0 max_age0
        det_confidence0 det_class0 det_best_bbox0 feature0 =
     \<lparr> cfg = cfg0,
       mean = mean0,
       covariance = covariance0,
       track_id = track_id0,
       hits = 1,
       age = 1,
       time_since_update = 0,
       det_confidence = det_confidence0,
       det_class = det_class0,
       det_best_bbox = det_best_bbox0,
       state = Tentative,
       features = (case feature0 of None \<Rightarrow> [] | Some f \<Rightarrow> [] @ [Some f]),
       n_init = n_init0,
       max_age = max_age0,
       track_line = [] \<rparr>"

text \<open>\<^verbatim>\<open>Track.predict\<close>: the filter's output replaces the estimate, two counters grow.\<close>

definition predict ::
  "('m, 'c, 'z) KalmanFilter \<Rightarrow> ('g, 'm, 'c, 'd, 'k, 'b, 'f) Track
    \<Rightarrow> ('g, 'm, 'c, 'd, 'k, 'b, 'f) Track" where
  "predict kf t =
     (case kf_predict kf (mean t) (covariance t) of
        (m, c) \<Rightarrow>
          t\<lparr> mean := m, covariance := c,
             age := age t + 1,
             time_since_update := time_since_update t + 1 \<rparr>)"

text \<open>
  \<^verbatim>\<open>Track.update\<close>, statement by statement: the measurement update, the append to the
  feature cache, the two counters, and the promotion of a tentative track.
\<close>

definition update ::
  "('m, 'c, 'z) KalmanFilter \<Rightarrow> ('z, 'f) Detection \<Rightarrow> ('g, 'm, 'c, 'd, 'k, 'b, 'f) Track
    \<Rightarrow> ('g, 'm, 'c, 'd, 'k, 'b, 'f) Track" where
  "update kf detection t =
     (case kf_update kf (mean t) (covariance t) (to_xyah detection) of
        (m, c) \<Rightarrow>
          let t1 = t\<lparr> mean := m, covariance := c \<rparr>;
              t2 = t1\<lparr> features := features t1 @ [feature detection] \<rparr>;
              t3 = t2\<lparr> hits := hits t2 + 1 \<rparr>;
              t4 = t3\<lparr> time_since_update := 0 \<rparr>
          in if state t4 = Tentative \<and> hits t4 \<ge> n_init t4
             then t4\<lparr> state := Confirmed \<rparr>
             else t4)"

text \<open>\<^verbatim>\<open>Track.mark_missed\<close>: an \<^verbatim>\<open>if\<close>/\<^verbatim>\<open>elif\<close> with no \<^verbatim>\<open>else\<close>.\<close>

definition mark_missed ::
  "('g, 'm, 'c, 'd, 'k, 'b, 'f) Track \<Rightarrow> ('g, 'm, 'c, 'd, 'k, 'b, 'f) Track" where
  "mark_missed t =
     (if state t = Tentative then t\<lparr> state := Deleted \<rparr>
      else if time_since_update t > max_age t then t\<lparr> state := Deleted \<rparr>
      else t)"

definition is_tentative :: "('g, 'm, 'c, 'd, 'k, 'b, 'f) Track \<Rightarrow> bool" where
  "is_tentative t = (state t = Tentative)"

definition is_confirmed :: "('g, 'm, 'c, 'd, 'k, 'b, 'f) Track \<Rightarrow> bool" where
  "is_confirmed t = (state t = Confirmed)"

definition is_deleted :: "('g, 'm, 'c, 'd, 'k, 'b, 'f) Track \<Rightarrow> bool" where
  "is_deleted t = (state t = Deleted)"

definition delete ::
  "('g, 'm, 'c, 'd, 'k, 'b, 'f) Track \<Rightarrow> ('g, 'm, 'c, 'd, 'k, 'b, 'f) Track" where
  "delete t = t\<lparr> state := Deleted \<rparr>"

subsection \<open>Sequences of calls\<close>

text \<open>
  The owning tracker drives a track through its methods. A call is a value, a sequence of
  calls a list, run from left to right; each call carries its own arguments.
\<close>

datatype ('m, 'c, 'z, 'f) call =
    Predict "('m, 'c, 'z) KalmanFilter"
  | Update "('m, 'c, 'z) KalmanFilter" "('z, 'f) Detection"
  | MarkMissed
  | Delete

fun step ::
  "('g, 'm, 'c, 'd, 'k, 'b, 'f) Track \<Rightarrow> ('m, 'c, 'z, 'f) call
    \<Rightarrow> ('g, 'm, 'c, 'd, 'k, 'b, 'f) Track" where
  "step t (Predict kf) = predict kf t"
| "step t (Update kf detection) = update kf detection t"
| "step t MarkMissed = mark_missed t"
| "step t Delete = delete t"

definition run ::
  "('g, 'm, 'c, 'd, 'k, 'b, 'f) Track \<Rightarrow> ('m, 'c, 'z, 'f) call list
    \<Rightarrow> ('g, 'm, 'c, 'd, 'k, 'b, 'f) Track" where
  "run t cs = foldl step t cs"

fun is_predict :: "('m, 'c, 'z, 'f) call \<Rightarrow> bool" where
  "is_predict (Predict kf) = True"
| "is_predict c = False"

fun is_update :: "('m, 'c, 'z, 'f) call \<Rightarrow> bool" where
  "is_update (Update kf detection) = True"
| "is_update c = False"

subsection \<open>Concrete values for the examples\<close>

text \<open>
  A filter, a detection and a fresh track over integers, on which the theorems below are
  evaluated: the filter's prediction adds one to both components, its measurement update
  returns the measurement.
\<close>

definition kf0 :: "(int, int, int) KalmanFilter" where
  "kf0 = \<lparr> kf_predict = (\<lambda>m c. (m + 1, c + 1)), kf_update = (\<lambda>m c z. (z, c - 1)) \<rparr>"

definition det0 :: "(int, string) Detection" where
  "det0 = \<lparr> to_xyah = 7, feature = Some ''f1'' \<rparr>"

definition track0 :: "int \<Rightarrow> int \<Rightarrow> (unit, int, int, unit, unit, unit, string) Track" where
  "track0 n a = init () 0 0 1 n a () () () None"

section \<open>The bounding-box accessors\<close>

subsection \<open>Arrays\<close>

text \<open>
  \<^verbatim>\<open>mean\<close> is a one-dimensional numpy array, and the accessors work on it by slicing,
  copying and assigning in place, so what they may change depends on which arrays share a
  buffer. The store is the list of all buffers, a buffer's address its position. An
  \<^verbatim>\<open>ndarray\<close> object is a window on a buffer: basic slicing (\<^verbatim>\<open>a[:n]\<close>, \<^verbatim>\<open>a[n:]\<close>)
  gives a window on the same buffer, \<^verbatim>\<open>.copy()\<close> a new buffer at a fresh address. The
  result of an arithmetic expression is a fresh array that nothing else refers to; such
  temporaries are plain lists.
\<close>

datatype error = IndexError | ValueError

type_synonym 'a heap = "'a list list"

record ndarray =
  buf :: nat
  off :: nat
  len :: nat

text \<open>An array object of a running program refers to an existing buffer and lies inside it.\<close>

definition valid :: "'a heap \<Rightarrow> ndarray \<Rightarrow> bool" where
  "valid h a = (buf a < length h \<and> off a + len a \<le> length (h ! buf a))"

definition elems :: "'a heap \<Rightarrow> ndarray \<Rightarrow> 'a list" where
  "elems h a = take (len a) (drop (off a) (h ! buf a))"

text \<open>\<^verbatim>\<open>a[:n]\<close> and \<^verbatim>\<open>a[n:]\<close> for \<^verbatim>\<open>n \<ge> 0\<close>.\<close>

definition slice_to :: "ndarray \<Rightarrow> nat \<Rightarrow> ndarray" where
  "slice_to a n = a\<lparr> len := min n (len a) \<rparr>"

definition slice_from :: "ndarray \<Rightarrow> nat \<Rightarrow> ndarray" where
  "slice_from a n = a\<lparr> off := off a + min n (len a), len := len a - n \<rparr>"

definition copy :: "'a heap \<Rightarrow> ndarray \<Rightarrow> 'a heap \<times> ndarray" where
  "copy h a = (h @ [elems h a], \<lparr> buf = length h, off = 0, len = len a \<rparr>)"

text \<open>\<^verbatim>\<open>a[i]\<close> for \<^verbatim>\<open>i \<ge> 0\<close>: an index beyond the end raises \<^verbatim>\<open>IndexError\<close>.\<close>

definition getitem :: "'a heap \<Rightarrow> ndarray \<Rightarrow> nat \<Rightarrow> error + 'a" where
  "getitem h a i = (if i < len a then Inr (elems h a ! i) else Inl IndexError)"

text \<open>Writing the values \<open>vs\<close> over the window \<open>a\<close>, in its buffer.\<close>

definition store :: "'a heap \<Rightarrow> ndarray \<Rightarrow> 'a list \<Rightarrow> 'a heap" where
  "store h a vs =
     h[buf a := take (off a) (h ! buf a) @ vs @ drop (off a + len a) (h ! buf a)]"

definition setitem :: "'a heap \<Rightarrow> ndarray \<Rightarrow> nat \<Rightarrow> 'a \<Rightarrow> error + 'a heap" where
  "setitem h a i v =
     (if i < len a then Inr (store h a ((elems h a)[i := v])) else Inl IndexError)"

text \<open>
  Elementwise operations broadcast an operand of length 1 and raise \<^verbatim>\<open>ValueError\<close> on any
  other mismatch of lengths: \<open>binop\<close> is \<^verbatim>\<open>xs + ys\<close> (a new array), \<open>inplace\<close> is
  \<^verbatim>\<open>a -= ys\<close> and \<open>assign\<close> is \<^verbatim>\<open>a[...] = ys\<close> (both write into the buffer of \<open>a\<close>, whose
  length is fixed).
\<close>

definition binop :: "('a \<Rightarrow> 'a \<Rightarrow> 'a) \<Rightarrow> 'a list \<Rightarrow> 'a list \<Rightarrow> error + 'a list" where
  "binop f xs ys =
     (if length xs = length ys then Inr (map2 f xs ys)
      else if length ys = 1 then Inr (map (\<lambda>x. f x (hd ys)) xs)
      else if length xs = 1 then Inr (map (f (hd xs)) ys)
      else Inl ValueError)"

definition inplace ::
  "('a \<Rightarrow> 'a \<Rightarrow> 'a) \<Rightarrow> 'a heap \<Rightarrow> ndarray \<Rightarrow> 'a list \<Rightarrow> error + 'a heap" where
  "inplace f h a ys =
     (if length ys = len a then Inr (store h a (map2 f (elems h a) ys))
      else if length ys = 1 then Inr (store h a (map (\<lambda>x. f x (hd ys)) (elems h a)))
      else Inl ValueError)"

definition assign :: "'a heap \<Rightarrow> ndarray \<Rightarrow> 'a list \<Rightarrow> error + 'a heap" where
  "assign h a ys =
     (if length ys = len a then Inr (store h a ys)
      else if length ys = 1 then Inr (store h a (replicate (len a) (hd ys)))
      else Inl ValueError)"

text \<open>
  The arithmetic of the array's elements belongs to numpy, not to this repository: it is
  a parameter. The accessors multiply, subtract, add and divide by the literal 2.
\<close>

record 'a arith =
  amul :: "'a \<Rightarrow> 'a \<Rightarrow> 'a"
  asub :: "'a \<Rightarrow> 'a \<Rightarrow> 'a"
  aadd :: "'a \<Rightarrow> 'a \<Rightarrow> 'a"
  ahalf :: "'a \<Rightarrow> 'a"

subsection \<open>The accessors\<close>

text \<open>
  \<^verbatim>\<open>Track.to_tlwh\<close>:
  \<^verbatim>\<open>ret = self.mean[:4].copy(); ret[2] *= ret[3]; ret[:2] -= ret[2:] / 2; return ret\<close>.
  The method assigns to no attribute of the track; it returns the store and the new array.
\<close>

definition to_tlwh ::
  "'a arith \<Rightarrow> 'a heap \<Rightarrow> ('g, ndarray, 'c, 'd, 'k, 'b, 'f) Track
    \<Rightarrow> error + ('a heap \<times> ndarray)" where
  "to_tlwh ar h t =
     (case copy h (slice_to (mean t) 4) of (h1, ret) \<Rightarrow>
      case getitem h1 ret 2 of Inl e \<Rightarrow> Inl e | Inr r2 \<Rightarrow>
      case getitem h1 ret 3 of Inl e \<Rightarrow> Inl e | Inr r3 \<Rightarrow>
      case setitem h1 ret 2 (amul ar r2 r3) of Inl e \<Rightarrow> Inl e | Inr h2 \<Rightarrow>
      case inplace (asub ar) h2 (slice_to ret 2) (map (ahalf ar) (elems h2 (slice_from ret 2)))
        of Inl e \<Rightarrow> Inl e | Inr h3 \<Rightarrow>
      Inr (h3, ret))"

text \<open>
  \<^verbatim>\<open>Track.to_tlbr\<close>: \<^verbatim>\<open>ret = self.to_tlwh(); ret[2:] = ret[:2] + ret[2:]; return ret\<close>.
\<close>

definition to_tlbr ::
  "'a arith \<Rightarrow> 'a heap \<Rightarrow> ('g, ndarray, 'c, 'd, 'k, 'b, 'f) Track
    \<Rightarrow> error + ('a heap \<times> ndarray)" where
  "to_tlbr ar h t =
     (case to_tlwh ar h t of Inl e \<Rightarrow> Inl e | Inr (h1, ret) \<Rightarrow>
      case binop (aadd ar) (elems h1 (slice_to ret 2)) (elems h1 (slice_from ret 2))
        of Inl e \<Rightarrow> Inl e | Inr tmp \<Rightarrow>
      case assign h1 (slice_from ret 2) tmp of Inl e \<Rightarrow> Inl e | Inr h2 \<Rightarrow>
      Inr (h2, ret))"

subsection \<open>Two arithmetics\<close>

text \<open>Exact arithmetic on the real numbers.\<close>

definition exact :: "real arith" where
  "exact = \<lparr> amul = (*), asub = (-), aadd = (+), ahalf = (\<lambda>x. x / 2) \<rparr>"

text \<open>
  The arithmetic of numpy's \<^verbatim>\<open>float64\<close>, which the filter's mean vector has: IEEE 754
  binary64 with rounding to nearest, ties to even. A finite number is a pair \<open>(m, e)\<close> of
  integers with the value \<open>m * 2 ^ e\<close>, kept in normal form (\<open>m\<close> odd, or \<open>(0, 0)\<close>), so
  that two pairs are equal exactly when their values are. Each operation computes the exact
  result and rounds it to 53 significant bits. The exponent is not bounded: the model
  agrees with binary64 as long as no result overflows or falls into the subnormal range;
  infinities and NaN are not represented.
\<close>

function nbits :: "int \<Rightarrow> nat" where
  "nbits m = (if m \<le> 0 then 0 else Suc (nbits (m div 2)))"
  by pat_completeness auto
termination
  by (relation "measure nat") auto

function normal :: "int \<Rightarrow> int \<Rightarrow> int \<times> int" where
  "normal m e = (if m = 0 then (0, 0) else if even m then normal (m div 2) (e + 1) else (m, e))"
  by pat_completeness auto
termination
  by (relation "measure (\<lambda>(m, e). nat \<bar>m\<bar>)") auto

declare nbits.simps [simp del] normal.simps [simp del]

definition round53 :: "int \<Rightarrow> int \<Rightarrow> int \<times> int" where
  "round53 m e =
     (let n = nbits \<bar>m\<bar> in
      if n \<le> 53 then normal m e
      else let s = n - 53;
               q = \<bar>m\<bar> div 2 ^ s;
               r = \<bar>m\<bar> mod 2 ^ s;
               q' = (if r > 2 ^ (s - 1) \<or> (r = 2 ^ (s - 1) \<and> odd q) then q + 1 else q)
           in normal (sgn m * q') (e + int s))"

fun f64_add :: "int \<times> int \<Rightarrow> int \<times> int \<Rightarrow> int \<times> int" where
  "f64_add (m1, e1) (m2, e2) =
     (let e = min e1 e2 in round53 (m1 * 2 ^ nat (e1 - e) + m2 * 2 ^ nat (e2 - e)) e)"

fun f64_sub :: "int \<times> int \<Rightarrow> int \<times> int \<Rightarrow> int \<times> int" where
  "f64_sub (m1, e1) (m2, e2) =
     (let e = min e1 e2 in round53 (m1 * 2 ^ nat (e1 - e) - m2 * 2 ^ nat (e2 - e)) e)"

fun f64_mul :: "int \<times> int \<Rightarrow> int \<times> int \<Rightarrow> int \<times> int" where
  "f64_mul (m1, e1) (m2, e2) = round53 (m1 * m2) (e1 + e2)"

fun f64_half :: "int \<times> int \<Rightarrow> int \<times> int" where
  "f64_half (m, e) = normal m (e - 1)"

definition binary64 :: "(int \<times> int) arith" where
  "binary64 = \<lparr> amul = f64_mul, asub = f64_sub, aadd = f64_add, ahalf = f64_half \<rparr>"

definition f64_val :: "int \<times> int \<Rightarrow> real" where
  "f64_val x = of_int (fst x) * 2 powi (snd x)"

subsection \<open>Concrete values for the examples\<close>

text \<open>
  A track whose mean is an array of eight elements at address 0, and two contents for that
  array: centre \<open>(1, 1)\<close>, aspect ratio 1, height one tenth, velocities 0. In binary64 one
  tenth is \<open>3602879701896397 * 2 ^ -55\<close>, the float nearest to it.
\<close>

definition track8 :: "(unit, ndarray, unit, unit, unit, unit, unit) Track" where
  "track8 = init () \<lparr> buf = 0, off = 0, len = 8 \<rparr> () 1 3 5 () () () None"

definition mean_exact :: "real list" where
  "mean_exact = [1, 1, 1, 1 / 10, 0, 0, 0, 0]"

definition mean64 :: "(int \<times> int) list" where
  "mean64 = [(1, 0), (1, 0), (1, 0), (3602879701896397, - 55), (0, 0), (0, 0), (0, 0), (0, 0)]"

section \<open>Properties of the life cycle\<close>

subsection \<open>Single calls\<close>

lemma predict_fields [simp]:
  "state (predict kf t) = state t"
  "hits (predict kf t) = hits t"
  "age (predict kf t) = age t + 1"
  "time_since_update (predict kf t) = time_since_update t + 1"
  "features (predict kf t) = features t"
  "n_init (predict kf t) = n_init t"
  "max_age (predict kf t) = max_age t"
  by (simp_all add: predict_def split: prod.split)

lemma update_fields [simp]:
  "hits (update kf d t) = hits t + 1"
  "age (update kf d t) = age t"
  "time_since_update (update kf d t) = 0"
  "features (update kf d t) = features t @ [feature d]"
  "n_init (update kf d t) = n_init t"
  "max_age (update kf d t) = max_age t"
  by (simp_all add: update_def Let_def split: prod.split)

lemma update_state:
  "state (update kf d t) =
     (if state t = Tentative \<and> n_init t \<le> hits t + 1 then Confirmed else state t)"
  by (simp add: update_def Let_def split: prod.split)

lemma mark_missed_fields [simp]:
  "hits (mark_missed t) = hits t"
  "age (mark_missed t) = age t"
  "time_since_update (mark_missed t) = time_since_update t"
  "features (mark_missed t) = features t"
  "n_init (mark_missed t) = n_init t"
  "max_age (mark_missed t) = max_age t"
  by (simp_all add: mark_missed_def)

lemma mark_missed_state:
  "state (mark_missed t) =
     (if state t = Tentative \<or> max_age t < time_since_update t then Deleted else state t)"
  by (simp add: mark_missed_def)

lemma delete_fields [simp]:
  "state (delete t) = Deleted"
  "hits (delete t) = hits t"
  "age (delete t) = age t"
  "n_init (delete t) = n_init t"
  by (simp_all add: delete_def)

lemma init_fields [simp]:
  "state (init g m c i n a dc dk db f) = Tentative"
  "hits (init g m c i n a dc dk db f) = 1"
  "age (init g m c i n a dc dk db f) = 1"
  "time_since_update (init g m c i n a dc dk db f) = 0"
  "n_init (init g m c i n a dc dk db f) = n"
  "max_age (init g m c i n a dc dk db f) = a"
  by (simp_all add: init_def)

lemma run_Nil [simp]: "run t [] = t"
  by (simp add: run_def)

lemma run_Cons [simp]: "run t (c # cs) = run (step t c) cs"
  by (simp add: run_def)

lemma run_snoc [simp]: "run t (cs @ [c]) = step (run t cs) c"
  by (simp add: run_def)

text \<open>
  C3. A confirmed track that is marked as missed is deleted if and only if
  \<^verbatim>\<open>time_since_update > max_age\<close> holds at the call; otherwise it stays confirmed.
\<close>

theorem mark_missed_confirmed:
  assumes "state t = Confirmed"
  shows "(state (mark_missed t) = Deleted \<longleftrightarrow> time_since_update t > max_age t)
       \<and> (\<not> time_since_update t > max_age t \<longrightarrow> state (mark_missed t) = Confirmed)"
  using assms by (simp add: mark_missed_def)

text \<open>
  The track with \<^verbatim>\<open>n_init = 2\<close> and \<^verbatim>\<open>max_age = 1\<close> is confirmed by one update; after
  one prediction a miss leaves it confirmed, after two it deletes it.
\<close>

theorem mark_missed_confirmed_witness:
  "state (run (track0 2 1) [Update kf0 det0, Predict kf0]) = Confirmed
   \<and> state (mark_missed (run (track0 2 1) [Update kf0 det0, Predict kf0])) = Confirmed
   \<and> state (run (track0 2 1) [Update kf0 det0, Predict kf0, Predict kf0]) = Confirmed
   \<and> state (mark_missed (run (track0 2 1) [Update kf0 det0, Predict kf0, Predict kf0])) = Deleted"
proof -
  let ?t1 = "run (track0 2 1) [Update kf0 det0, Predict kf0]"
  let ?t2 = "run (track0 2 1) [Update kf0 det0, Predict kf0, Predict kf0]"
  have c1: "state ?t1 = Confirmed" and a1: "\<not> time_since_update ?t1 > max_age ?t1"
    by (simp_all add: track0_def update_state)
  have c2: "state ?t2 = Confirmed" and a2: "time_since_update ?t2 > max_age ?t2"
    by (simp_all add: track0_def update_state)
  from mark_missed_confirmed [OF c1] a1 mark_missed_confirmed [OF c2] a2 c1 c2
  show ?thesis by blast
qed

text \<open>
  C4. A tentative track that is marked as missed is deleted, whatever the value of
  \<^verbatim>\<open>time_since_update\<close> (and of \<^verbatim>\<open>max_age\<close>).
\<close>

theorem mark_missed_tentative:
  assumes "state t = Tentative"
  shows "state (mark_missed t) = Deleted"
  using assms by (simp add: mark_missed_def)

text \<open>A fresh track with \<^verbatim>\<open>max_age = 100\<close>, missed at once and missed after a prediction.\<close>

theorem mark_missed_tentative_witness:
  "state (track0 3 100) = Tentative
   \<and> state (mark_missed (track0 3 100)) = Deleted
   \<and> state (predict kf0 (track0 3 100)) = Tentative
   \<and> state (mark_missed (predict kf0 (track0 3 100))) = Deleted"
proof -
  have t1: "state (track0 3 100) = Tentative"
    by (simp add: track0_def)
  have t2: "state (predict kf0 (track0 3 100)) = Tentative"
    by (simp add: track0_def)
  from mark_missed_tentative [OF t1] mark_missed_tentative [OF t2] t1 t2
  show ?thesis by blast
qed

text \<open>
  C6. Construction gives a tentative track with \<^verbatim>\<open>hits = 1\<close>, \<^verbatim>\<open>age = 1\<close> and
  \<^verbatim>\<open>time_since_update = 0\<close>; its feature cache holds exactly the initial feature when one
  is given and is empty when the argument is \<^verbatim>\<open>None\<close>.
\<close>

theorem init_result:
  "state (init g m c i n a dc dk db f) = Tentative
   \<and> hits (init g m c i n a dc dk db f) = 1
   \<and> age (init g m c i n a dc dk db f) = 1
   \<and> time_since_update (init g m c i n a dc dk db f) = 0
   \<and> features (init g m c i n a dc dk db (Some x)) = [Some x]
   \<and> features (init g m c i n a dc dk db None) = []"
  by (simp add: init_def)

text \<open>
  C7. A prediction replaces \<^verbatim>\<open>mean\<close> and \<^verbatim>\<open>covariance\<close> by the two components of the
  filter's output, adds one to \<^verbatim>\<open>age\<close> and to \<^verbatim>\<open>time_since_update\<close>, and leaves the state,
  \<^verbatim>\<open>hits\<close>, the feature cache and every other attribute as they were.
\<close>

theorem predict_effect:
  "mean (predict kf t) = fst (kf_predict kf (mean t) (covariance t))
   \<and> covariance (predict kf t) = snd (kf_predict kf (mean t) (covariance t))
   \<and> age (predict kf t) = age t + 1
   \<and> time_since_update (predict kf t) = time_since_update t + 1
   \<and> state (predict kf t) = state t
   \<and> hits (predict kf t) = hits t
   \<and> features (predict kf t) = features t
   \<and> predict kf t =
       t\<lparr> mean := mean (predict kf t), covariance := covariance (predict kf t),
          age := age (predict kf t),
          time_since_update := time_since_update (predict kf t) \<rparr>"
  by (simp add: predict_def split: prod.split)

text \<open>
  C10. Marking a track as missed changes at most its state: \<^verbatim>\<open>hits\<close>, \<^verbatim>\<open>age\<close>,
  \<^verbatim>\<open>time_since_update\<close>, \<^verbatim>\<open>mean\<close>, \<^verbatim>\<open>covariance\<close> and the feature cache are as before, and
  so is every other attribute.
\<close>

theorem mark_missed_frame:
  "hits (mark_missed t) = hits t
   \<and> age (mark_missed t) = age t
   \<and> time_since_update (mark_missed t) = time_since_update t
   \<and> mean (mark_missed t) = mean t
   \<and> covariance (mark_missed t) = covariance t
   \<and> features (mark_missed t) = features t
   \<and> mark_missed t = t\<lparr> state := state (mark_missed t) \<rparr>"
  by (simp add: mark_missed_def)

text \<open>
  C9. An update of a deleted track still does everything but the promotion: the filter's
  measurement update replaces \<^verbatim>\<open>mean\<close> and \<^verbatim>\<open>covariance\<close>, the detection's feature is
  appended to the cache, \<^verbatim>\<open>hits\<close> grows by one, \<^verbatim>\<open>time_since_update\<close> becomes 0, and the
  state stays deleted.
\<close>

theorem update_deleted:
  assumes "state t = Deleted"
  shows "mean (update kf d t) = fst (kf_update kf (mean t) (covariance t) (to_xyah d))
   \<and> covariance (update kf d t) = snd (kf_update kf (mean t) (covariance t) (to_xyah d))
   \<and> features (update kf d t) = features t @ [feature d]
   \<and> hits (update kf d t) = hits t + 1
   \<and> time_since_update (update kf d t) = 0
   \<and> state (update kf d t) = Deleted"
  using assms by (simp add: update_def Let_def split: prod.split)

text \<open>
  A fresh track, missed (so deleted), aged by two predictions and then updated: the mean is
  the measurement 7, the cache holds the detection's feature, \<^verbatim>\<open>hits\<close> is 2.
\<close>

theorem update_deleted_witness:
  "state (run (track0 3 5) [MarkMissed, Predict kf0, Predict kf0]) = Deleted
   \<and> time_since_update (run (track0 3 5) [MarkMissed, Predict kf0, Predict kf0]) = 2
   \<and> mean (update kf0 det0 (run (track0 3 5) [MarkMissed, Predict kf0, Predict kf0])) = 7
   \<and> features (update kf0 det0 (run (track0 3 5) [MarkMissed, Predict kf0, Predict kf0]))
       = [Some ''f1'']
   \<and> hits (update kf0 det0 (run (track0 3 5) [MarkMissed, Predict kf0, Predict kf0])) = 2
   \<and> time_since_update
       (update kf0 det0 (run (track0 3 5) [MarkMissed, Predict kf0, Predict kf0])) = 0
   \<and> state (update kf0 det0 (run (track0 3 5) [MarkMissed, Predict kf0, Predict kf0]))
       = Deleted"
proof -
  let ?t = "run (track0 3 5) [MarkMissed, Predict kf0, Predict kf0]"
  have d: "state ?t = Deleted"
    by (simp add: track0_def mark_missed_state)
  have v: "time_since_update ?t = 2" "hits ?t = 1" "features ?t = []"
    "fst (kf_update kf0 (mean ?t) (covariance ?t) (to_xyah det0)) = 7"
    "feature det0 = Some ''f1''"
    by (simp_all add: track0_def init_def kf0_def det0_def)
  from update_deleted [OF d, of kf0 det0] d v
  show ?thesis by simp
qed

subsection \<open>Sequences of calls\<close>

lemma step_deleted: "state t = Deleted \<Longrightarrow> state (step t c) = Deleted"
  by (cases c) (simp_all add: update_state mark_missed_state)

lemma run_deleted: "state t = Deleted \<Longrightarrow> state (run t cs) = Deleted"
  by (induction cs arbitrary: t) (simp_all add: step_deleted)

text \<open>
  C5. Once a track is deleted, no call of \<^verbatim>\<open>update\<close>, \<^verbatim>\<open>predict\<close> or \<^verbatim>\<open>mark_missed\<close>
  changes its state, and so no sequence of calls does.
\<close>

theorem deleted_terminal:
  assumes "state t = Deleted"
  shows "state (update kf d t) = Deleted
       \<and> state (predict kf' t) = Deleted
       \<and> state (mark_missed t) = Deleted
       \<and> state (run t cs) = Deleted"
  using assms by (simp add: update_state mark_missed_state run_deleted)

text \<open>
  A confirmed track that was missed after two predictions with \<^verbatim>\<open>max_age = 1\<close>, then
  updated, predicted and missed again.
\<close>

theorem deleted_terminal_witness:
  "state (run (track0 2 1) [Update kf0 det0, Predict kf0, Predict kf0, MarkMissed]) = Deleted
   \<and> state (update kf0 det0
        (run (track0 2 1) [Update kf0 det0, Predict kf0, Predict kf0, MarkMissed])) = Deleted
   \<and> state (predict kf0
        (run (track0 2 1) [Update kf0 det0, Predict kf0, Predict kf0, MarkMissed])) = Deleted
   \<and> state (mark_missed
        (run (track0 2 1) [Update kf0 det0, Predict kf0, Predict kf0, MarkMissed])) = Deleted
   \<and> state (run (run (track0 2 1) [Update kf0 det0, Predict kf0, Predict kf0, MarkMissed])
        [Update kf0 det0, Update kf0 det0, Predict kf0, MarkMissed]) = Deleted"
proof -
  let ?t = "run (track0 2 1) [Update kf0 det0, Predict kf0, Predict kf0, MarkMissed]"
  have d: "state ?t = Deleted"
    by (simp add: track0_def update_state mark_missed_state)
  from deleted_terminal [OF d, of kf0 det0 kf0
      "[Update kf0 det0, Update kf0 det0, Predict kf0, MarkMissed]"] d
  show ?thesis by blast
qed

lemma step_hits: "hits (step t c) = hits t + (if is_update c then 1 else 0)"
  by (cases c) simp_all

lemma step_age: "age (step t c) = age t + (if is_predict c then 1 else 0)"
  by (cases c) simp_all

lemma step_n_init [simp]: "n_init (step t c) = n_init t"
  by (cases c) simp_all

lemma run_hits: "hits (run t cs) = hits t + int (length (filter is_update cs))"
  by (induction cs arbitrary: t) (simp_all add: step_hits)

lemma run_age: "age (run t cs) = age t + int (length (filter is_predict cs))"
  by (induction cs arbitrary: t) (simp_all add: step_age)

lemma run_n_init [simp]: "n_init (run t cs) = n_init t"
  by (induction cs arbitrary: t) simp_all

text \<open>
  C2, as the specification states it, says that \<^verbatim>\<open>age \<ge> hits\<close> holds after every sequence
  of \<^verbatim>\<open>predict\<close> and \<^verbatim>\<open>update\<close> calls in any order. An update adds one to \<^verbatim>\<open>hits\<close> and
  leaves \<^verbatim>\<open>age\<close> alone: after construction and one update \<^verbatim>\<open>hits\<close> is 2 and \<^verbatim>\<open>age\<close>
  is 1.
\<close>

theorem age_ge_hits_counterexample:
  "hits (run (track0 3 5) [Update kf0 det0]) = 2
   \<and> age (run (track0 3 5) [Update kf0 det0]) = 1
   \<and> \<not> (age (run (track0 3 5) [Update kf0 det0]) \<ge> hits (run (track0 3 5) [Update kf0 det0]))"
  by (simp add: track0_def)

text \<open>
  C2, amended. After any sequence of calls on a fresh track, \<^verbatim>\<open>hits\<close> is one more than the
  number of updates and \<^verbatim>\<open>age\<close> one more than the number of predictions. So \<^verbatim>\<open>hits \<ge> 1\<close>
  always holds, and \<^verbatim>\<open>age \<ge> hits\<close> holds exactly when the sequence has at least as many
  predictions as updates (as it has when every update follows a prediction of its own).
\<close>

theorem hits_age_counts:
  "hits (run (init g m c i n a dc dk db f) cs) = 1 + int (length (filter is_update cs))
   \<and> age (run (init g m c i n a dc dk db f) cs) = 1 + int (length (filter is_predict cs))
   \<and> hits (run (init g m c i n a dc dk db f) cs) \<ge> 1
   \<and> (age (run (init g m c i n a dc dk db f) cs) \<ge> hits (run (init g m c i n a dc dk db f) cs)
        \<longleftrightarrow> length (filter is_update cs) \<le> length (filter is_predict cs))"
  by (simp add: run_hits run_age)

lemma run_fresh_state:
  assumes "\<forall>c\<in>set cs. is_predict c \<or> is_update c"
  shows "state (run (init g m c i n a dc dk db f) cs) =
           (if max 2 n \<le> hits (run (init g m c i n a dc dk db f) cs)
            then Confirmed else Tentative)"
  using assms
proof (induction cs rule: rev_induct)
  case Nil
  show ?case by simp
next
  case (snoc x xs)
  let ?t = "run (init g m c i n a dc dk db f) xs"
  have ih: "state ?t = (if max 2 n \<le> hits ?t then Confirmed else Tentative)"
    using snoc by simp
  have h: "1 \<le> hits ?t"
    by (simp add: run_hits)
  have ni: "n_init ?t = n"
    by simp
  from snoc.prems have "is_predict x \<or> is_update x"
    by simp
  then show ?case
  proof (cases x)
    case (Predict kf)
    then show ?thesis using ih by simp
  next
    case (Update kf d)
    then show ?thesis using ih h ni by (simp add: update_state)
  qed simp_all
qed

lemma step_confirms:
  assumes "is_confirmed (step t c)" and "\<not> is_confirmed t"
  shows "is_update c \<and> is_tentative t \<and> hits (step t c) = hits t + 1
         \<and> n_init t \<le> hits (step t c)"
  using assms
  by (cases c)
     (auto simp: is_confirmed_def is_tentative_def update_state mark_missed_state
           split: if_splits)

text \<open>
  C1, amended. A fresh track is tentative. A call turns a track that is not confirmed into
  a confirmed one only if it is an update of a tentative track, and then \<^verbatim>\<open>hits\<close>, just
  incremented, is at least \<^verbatim>\<open>n_init\<close>; an update of a tentative track confirms it exactly
  when \<^verbatim>\<open>hits + 1 \<ge> n_init\<close>. For \<^verbatim>\<open>n_init \<ge> 2\<close>, along every sequence of \<^verbatim>\<open>predict\<close>
  and \<^verbatim>\<open>update\<close> calls on a fresh track, the track is confirmed after \<open>k\<close> calls exactly
  when \<^verbatim>\<open>hits \<ge> n_init\<close> holds there, and tentative otherwise: it first becomes confirmed
  at the update in which \<^verbatim>\<open>hits\<close> first reaches \<^verbatim>\<open>n_init\<close>, never earlier.
\<close>

theorem confirmed_only_by_update:
  "is_tentative (init g m c i n a dc dk db f)
   \<and> (is_confirmed (step t x) \<and> \<not> is_confirmed t \<longrightarrow>
        is_update x \<and> is_tentative t \<and> hits (step t x) = hits t + 1
        \<and> n_init t \<le> hits (step t x))
   \<and> (is_tentative t \<longrightarrow> (is_confirmed (update kf d t) \<longleftrightarrow> n_init t \<le> hits t + 1))
   \<and> (2 \<le> n \<and> (\<forall>y\<in>set cs. is_predict y \<or> is_update y) \<longrightarrow>
        (\<forall>k. (is_confirmed (run (init g m c i n a dc dk db f) (take k cs))
                \<longleftrightarrow> n \<le> hits (run (init g m c i n a dc dk db f) (take k cs)))
           \<and> (is_tentative (run (init g m c i n a dc dk db f) (take k cs))
                \<longleftrightarrow> \<not> n \<le> hits (run (init g m c i n a dc dk db f) (take k cs)))))"
proof -
  have a: "is_tentative (init g m c i n a dc dk db f)"
    by (simp add: is_tentative_def)
  have b: "is_confirmed (step t x) \<and> \<not> is_confirmed t \<longrightarrow>
        is_update x \<and> is_tentative t \<and> hits (step t x) = hits t + 1
        \<and> n_init t \<le> hits (step t x)"
    using step_confirms [of t x] by blast
  have c: "is_tentative t \<longrightarrow> (is_confirmed (update kf d t) \<longleftrightarrow> n_init t \<le> hits t + 1)"
    by (simp add: is_tentative_def is_confirmed_def update_state)
  have d: "(is_confirmed (run (init g m c i n a dc dk db f) (take k cs))
                \<longleftrightarrow> n \<le> hits (run (init g m c i n a dc dk db f) (take k cs)))
           \<and> (is_tentative (run (init g m c i n a dc dk db f) (take k cs))
                \<longleftrightarrow> \<not> n \<le> hits (run (init g m c i n a dc dk db f) (take k cs)))"
    if n2: "2 \<le> n" and pu: "\<forall>y\<in>set cs. is_predict y \<or> is_update y" for k
  proof -
    from pu have "\<forall>y\<in>set (take k cs). is_predict y \<or> is_update y"
      by (meson in_set_takeD)
    from run_fresh_state [OF this, of g m c i n a dc dk db f] n2
    show ?thesis by (simp add: is_confirmed_def is_tentative_def max_def)
  qed
  from a b c d show ?thesis by blast
qed

text \<open>
  With \<^verbatim>\<open>n_init = 3\<close>: after an update and a prediction \<^verbatim>\<open>hits\<close> is 2 and the track is
  tentative; the second update is the call that confirms it, and it makes \<^verbatim>\<open>hits\<close> 3.
\<close>

theorem confirmed_only_by_update_witness:
  "is_tentative (track0 3 5)
   \<and> is_tentative (run (track0 3 5) (take 2 [Update kf0 det0, Predict kf0, Update kf0 det0]))
   \<and> hits (run (track0 3 5) (take 2 [Update kf0 det0, Predict kf0, Update kf0 det0])) = 2
   \<and> is_confirmed (run (track0 3 5) (take 3 [Update kf0 det0, Predict kf0, Update kf0 det0]))
   \<and> hits (run (track0 3 5) (take 3 [Update kf0 det0, Predict kf0, Update kf0 det0])) = 3
   \<and> is_confirmed (step (run (track0 3 5) [Update kf0 det0, Predict kf0]) (Update kf0 det0))
   \<and> \<not> is_confirmed (run (track0 3 5) [Update kf0 det0, Predict kf0])
   \<and> is_update (Update kf0 det0)
   \<and> n_init (run (track0 3 5) [Update kf0 det0, Predict kf0])
        \<le> hits (step (run (track0 3 5) [Update kf0 det0, Predict kf0]) (Update kf0 det0))"
proof -
  let ?cs = "[Update kf0 det0, Predict kf0, Update kf0 det0]"
  let ?fresh = "init () 0 0 1 3 5 () () () None :: (unit, int, int, unit, unit, unit, string) Track"
  let ?mid = "run ?fresh [Update kf0 det0, Predict kf0]"
  have n: "(2::int) \<le> 3"
    by simp
  have pu: "\<forall>y\<in>set ?cs. is_predict y \<or> is_update y"
    by simp
  have h2: "hits (run ?fresh (take 2 ?cs)) = 2" and h3: "hits (run ?fresh (take 3 ?cs)) = 3"
    by simp_all
  have s: "is_confirmed (step ?mid (Update kf0 det0))" "\<not> is_confirmed ?mid"
    by (simp_all add: is_confirmed_def update_state)
  note inst = confirmed_only_by_update
    [of "()" 0 0 1 3 5 "()" "()" "()" None ?mid "Update kf0 det0" kf0 det0 ?cs]
  from inst n pu
  have a: "is_tentative ?fresh"
    and k: "\<And>k. is_confirmed (run ?fresh (take k ?cs)) \<longleftrightarrow> 3 \<le> hits (run ?fresh (take k ?cs))"
    and k': "\<And>k. is_tentative (run ?fresh (take k ?cs)) \<longleftrightarrow> \<not> 3 \<le> hits (run ?fresh (take k ?cs))"
    by blast+
  from inst s
  have u: "is_update (Update kf0 det0 :: (int, int, int, string) call)"
      "n_init ?mid \<le> hits (step ?mid (Update kf0 det0))"
    by blast+
  from k' [of 2] h2 have c2: "is_tentative (run ?fresh (take 2 ?cs))"
    by simp
  from k [of 3] h3 have c3: "is_confirmed (run ?fresh (take 3 ?cs))"
    by simp
  from a c2 h2 c3 h3 s u show ?thesis
    unfolding track0_def by blast
qed

text \<open>
  C1, as the specification states it, says that for every \<^verbatim>\<open>n_init \<ge> 1\<close> and every
  sequence of calls the track first becomes confirmed at the call in which \<^verbatim>\<open>hits\<close> first
  satisfies \<^verbatim>\<open>hits \<ge> n_init\<close>. With \<^verbatim>\<open>n_init = 1\<close> that holds at construction, where the
  track is tentative; it is confirmed by the first update, where \<^verbatim>\<open>hits\<close> is 2. With
  \<^verbatim>\<open>n_init = 2\<close>, a miss followed by an update brings \<^verbatim>\<open>hits\<close> to 2 for the first time,
  and the track is deleted, not confirmed.
\<close>

theorem confirmed_at_n_init_counterexample:
  "1 \<le> n_init (track0 1 5)
   \<and> n_init (track0 1 5) \<le> hits (track0 1 5)
   \<and> \<not> is_confirmed (track0 1 5)
   \<and> is_confirmed (run (track0 1 5) [Update kf0 det0])
   \<and> hits (run (track0 1 5) [Update kf0 det0]) = 2
   \<and> \<not> n_init (track0 2 5) \<le> hits (run (track0 2 5) [MarkMissed])
   \<and> n_init (track0 2 5) \<le> hits (run (track0 2 5) [MarkMissed, Update kf0 det0])
   \<and> \<not> is_confirmed (run (track0 2 5) [MarkMissed, Update kf0 det0])"
  by (simp add: track0_def is_confirmed_def update_state mark_missed_state)

section \<open>Properties of the bounding-box accessors\<close>

subsection \<open>The rounding of the binary64 model\<close>

text \<open>
  Normalisation keeps the value; a mantissa of at most 53 bits is not rounded; a longer one
  is replaced by a value at most half a unit in the last place away.
\<close>

lemma normal_val: "f64_val (normal m e) = f64_val (m, e)"
proof (induction m e rule: normal.induct)
  case (1 m e)
  show ?case
  proof (cases "m \<noteq> 0 \<and> even m")
    case True
    then obtain k where k: "m = 2 * k" by auto
    have "f64_val (normal m e) = f64_val (normal (m div 2) (e + 1))"
      using True by (subst normal.simps) simp
    also have "\<dots> = f64_val (m div 2, e + 1)"
      using True 1 by simp
    also have "\<dots> = f64_val (m, e)"
      by (simp add: k f64_val_def power_int_add)
    finally show ?thesis .
  next
    case False
    then show ?thesis
      by (subst normal.simps) (auto simp: f64_val_def)
  qed
qed

lemma nearest_int:
  fixes a :: int
  assumes a: "0 \<le> a" and s: "0 < s"
  shows "\<bar>a - (if a mod 2 ^ s > 2 ^ (s - 1) \<or> (a mod 2 ^ s = 2 ^ (s - 1) \<and> odd (a div 2 ^ s))
               then a div 2 ^ s + 1 else a div 2 ^ s) * 2 ^ s\<bar> \<le> 2 ^ (s - 1)"
proof -
  define p :: int where "p = 2 ^ (s - 1)"
  have ps: "(2::int) ^ s = 2 * p"
    using s by (simp add: p_def power_eq_if)
  have pp: "0 < p" by (simp add: p_def)
  define q where "q = a div (2 * p)"
  define r where "r = a mod (2 * p)"
  have d: "a = q * (2 * p) + r"
    unfolding q_def r_def by (rule div_mult_mod_eq [symmetric])
  have r: "0 \<le> r" "r < 2 * p"
    using pp by (simp_all add: r_def)
  show ?thesis
    unfolding ps p_def [symmetric] q_def [symmetric] r_def [symmetric]
    using d r by (auto simp: algebra_simps)
qed

lemma round53_exact:
  assumes "nbits \<bar>m\<bar> \<le> 53"
  shows "f64_val (round53 m e) = of_int m * 2 powi e"
  using assms by (simp add: round53_def normal_val) (simp add: f64_val_def)

lemma round53_nearest:
  assumes "53 < nbits \<bar>m\<bar>"
  shows "\<bar>f64_val (round53 m e) - of_int m * 2 powi e\<bar>
           \<le> 2 powi (e + int (nbits \<bar>m\<bar> - 53) - 1)"
proof -
  define s where "s = nbits \<bar>m\<bar> - 53"
  have s: "0 < s" using assms by (simp add: s_def)
  define q' where "q' = (if \<bar>m\<bar> mod 2 ^ s > 2 ^ (s - 1) \<or> (\<bar>m\<bar> mod 2 ^ s = 2 ^ (s - 1) \<and> odd (\<bar>m\<bar> div 2 ^ s))
               then \<bar>m\<bar> div 2 ^ s + 1 else \<bar>m\<bar> div 2 ^ s)"
  have n: "\<bar>\<bar>m\<bar> - q' * 2 ^ s\<bar> \<le> 2 ^ (s - 1)"
    unfolding q'_def using nearest_int [of "\<bar>m\<bar>" s] s by simp
  have "sgn m * q' * 2 ^ s - m = sgn m * (q' * 2 ^ s - \<bar>m\<bar>)"
    by (simp add: right_diff_distrib mult_sgn_abs mult.assoc)
  then have "\<bar>sgn m * q' * 2 ^ s - m\<bar> = \<bar>sgn m\<bar> * \<bar>\<bar>m\<bar> - q' * 2 ^ s\<bar>"
    by (simp add: abs_mult abs_minus_commute)
  also have "\<dots> \<le> 2 ^ (s - 1)"
    using n by (cases "m = 0") (simp_all add: abs_sgn_eq)
  finally have i: "\<bar>sgn m * q' * 2 ^ s - m\<bar> \<le> 2 ^ (s - 1)" .
  from i have "(of_int \<bar>sgn m * q' * 2 ^ s - m\<bar> :: real) \<le> of_int (2 ^ (s - 1))"
    by (rule iffD2 [OF of_int_le_iff])
  then have j: "\<bar>of_int (sgn m * q') * 2 ^ s - of_int m :: real\<bar> \<le> 2 ^ (s - 1)"
    by simp
  have r: "round53 m e = normal (sgn m * q') (e + int s)"
    using assms by (simp add: round53_def Let_def s_def q'_def)
  have "f64_val (round53 m e) = of_int (sgn m * q') * 2 powi (e + int s)"
    by (simp only: r normal_val) (simp add: f64_val_def)
  then have "f64_val (round53 m e) - of_int m * 2 powi e
          = (of_int (sgn m * q') * 2 ^ s - of_int m) * 2 powi e"
    by (simp add: power_int_add algebra_simps)
  then have "\<bar>f64_val (round53 m e) - of_int m * 2 powi e\<bar>
          = \<bar>of_int (sgn m * q') * 2 ^ s - of_int m :: real\<bar> * 2 powi e"
    by (simp only: abs_mult) simp
  also have "\<dots> \<le> 2 ^ (s - 1) * 2 powi e"
    using j by (rule mult_right_mono) simp
  also have "\<dots> = 2 powi (e + int s - 1)"
    using s by (simp add: power_int_add power_int_diff power_eq_if)
  finally show ?thesis
    by (simp add: s_def)
qed

subsection \<open>What the accessors compute\<close>

lemma take4:
  assumes "4 \<le> length xs"
  shows "take 4 xs = [xs ! 0, xs ! 1, xs ! 2, xs ! 3]"
proof -
  from assms have "Suc (Suc (Suc (Suc 0))) \<le> length xs"
    by simp
  then obtain a b c d ys where "xs = a # b # c # d # ys"
    by (auto simp: Suc_le_length_iff)
  then show ?thesis by simp
qed

lemma length_elems: "valid h a \<Longrightarrow> length (elems h a) = len a"
  by (auto simp: valid_def elems_def)

lemma elems_slice_to: "elems h (slice_to a n) = take n (elems h a)"
  by (simp add: elems_def slice_to_def min.commute)

lemma to_tlwh_after_copy:
  assumes "copy h (slice_to (mean t) 4) =
             (h @ [[x, y, r, hh]], \<lparr> buf = length h, off = 0, len = 4 \<rparr>)"
  shows "to_tlwh ar h t =
    Inr (h @ [[asub ar x (ahalf ar (amul ar r hh)), asub ar y (ahalf ar hh), amul ar r hh, hh]],
         \<lparr> buf = length h, off = 0, len = 4 \<rparr>)"
  by (simp only: to_tlwh_def assms prod.case)
     (simp add: getitem_def setitem_def inplace_def store_def elems_def
        slice_to_def slice_from_def)

lemma to_tlwh_value:
  assumes v: "valid h (mean t)" and l: "4 \<le> len (mean t)"
  shows "to_tlwh ar h t =
    Inr (h @ [[asub ar (elems h (mean t) ! 0)
                 (ahalf ar (amul ar (elems h (mean t) ! 2) (elems h (mean t) ! 3))),
               asub ar (elems h (mean t) ! 1) (ahalf ar (elems h (mean t) ! 3)),
               amul ar (elems h (mean t) ! 2) (elems h (mean t) ! 3),
               elems h (mean t) ! 3]],
         \<lparr> buf = length h, off = 0, len = 4 \<rparr>)"
proof -
  let ?xs = "elems h (mean t)"
  have "4 \<le> length ?xs"
    using v l by (simp add: length_elems)
  then have e: "elems h (slice_to (mean t) 4) = [?xs ! 0, ?xs ! 1, ?xs ! 2, ?xs ! 3]"
    by (simp add: elems_slice_to take4)
  have "len (slice_to (mean t) 4) = 4"
    using l by (simp add: slice_to_def)
  then have "copy h (slice_to (mean t) 4) =
      (h @ [[?xs ! 0, ?xs ! 1, ?xs ! 2, ?xs ! 3]], \<lparr> buf = length h, off = 0, len = 4 \<rparr>)"
    by (simp add: copy_def e)
  then show ?thesis
    by (rule to_tlwh_after_copy)
qed

lemma to_tlwh_short:
  assumes "len (mean t) < 4"
  shows "to_tlwh ar h t = Inl IndexError"
  using assms
  by (simp add: to_tlwh_def copy_def getitem_def setitem_def slice_to_def
      split: sum.split)

lemma to_tlbr_value:
  assumes v: "valid h (mean t)" and l: "4 \<le> len (mean t)"
  shows "to_tlbr ar h t =
    Inr (h @ [[asub ar (elems h (mean t) ! 0)
                 (ahalf ar (amul ar (elems h (mean t) ! 2) (elems h (mean t) ! 3))),
               asub ar (elems h (mean t) ! 1) (ahalf ar (elems h (mean t) ! 3)),
               aadd ar (asub ar (elems h (mean t) ! 0)
                          (ahalf ar (amul ar (elems h (mean t) ! 2) (elems h (mean t) ! 3))))
                       (amul ar (elems h (mean t) ! 2) (elems h (mean t) ! 3)),
               aadd ar (asub ar (elems h (mean t) ! 1) (ahalf ar (elems h (mean t) ! 3)))
                       (elems h (mean t) ! 3)]],
         \<lparr> buf = length h, off = 0, len = 4 \<rparr>)"
  by (simp add: to_tlbr_def to_tlwh_value [OF v l] binop_def assign_def store_def elems_def
      slice_to_def slice_from_def)

lemma to_tlbr_short:
  assumes "len (mean t) < 4"
  shows "to_tlbr ar h t = Inl IndexError"
  by (simp add: to_tlbr_def to_tlwh_short [OF assms])

lemma elems_append_old: "buf a < length h \<Longrightarrow> elems (h @ hs) a = elems h a"
  by (simp add: elems_def nth_append)

text \<open>
  C8, amended. For a mean vector of at least four elements, in any element arithmetic:
  both accessors return a new array of four elements; the top-left form is
  \<open>(x - w / 2, y - h / 2, w, h)\<close> with \<open>w = a * h\<close>; the corner form's minimum is the
  top-left form's top-left corner, and its maximum is the sum, as the arithmetic computes
  it, of that corner and \<open>(w, h)\<close>. The maximum minus the minimum is \<open>(w, h)\<close> again in any
  arithmetic in which \<open>(p + q) - p = q\<close> holds, which exact arithmetic on the reals does.
  Neither accessor changes an array that existed before the call: the elements of the mean
  vector are the same afterwards.
\<close>

theorem bbox_accessors:
  assumes v: "valid h (mean t)" and l: "4 \<le> len (mean t)"
  shows "(\<exists>h1 a h2 b.
      to_tlwh ar h t = Inr (h1, a) \<and> to_tlbr ar h t = Inr (h2, b)
    \<and> length (elems h1 a) = 4 \<and> length (elems h2 b) = 4
    \<and> elems h1 a ! 2 = amul ar (elems h (mean t) ! 2) (elems h (mean t) ! 3)
    \<and> elems h1 a ! 3 = elems h (mean t) ! 3
    \<and> elems h1 a ! 0 = asub ar (elems h (mean t) ! 0) (ahalf ar (elems h1 a ! 2))
    \<and> elems h1 a ! 1 = asub ar (elems h (mean t) ! 1) (ahalf ar (elems h1 a ! 3))
    \<and> elems h2 b ! 0 = elems h1 a ! 0
    \<and> elems h2 b ! 1 = elems h1 a ! 1
    \<and> elems h2 b ! 2 = aadd ar (elems h1 a ! 0) (elems h1 a ! 2)
    \<and> elems h2 b ! 3 = aadd ar (elems h1 a ! 1) (elems h1 a ! 3)
    \<and> ((\<forall>p q. asub ar (aadd ar p q) p = q) \<longrightarrow>
          asub ar (elems h2 b ! 2) (elems h2 b ! 0) = elems h1 a ! 2
        \<and> asub ar (elems h2 b ! 3) (elems h2 b ! 1) = elems h1 a ! 3)
    \<and> take (length h) h1 = h \<and> take (length h) h2 = h
    \<and> elems h1 (mean t) = elems h (mean t) \<and> elems h2 (mean t) = elems h (mean t))
    \<and> (\<forall>p q. asub exact (aadd exact p q) p = q)"
proof -
  from v have o: "buf (mean t) < length h"
    by (simp add: valid_def)
  have main: "\<exists>h1 a h2 b.
      to_tlwh ar h t = Inr (h1, a) \<and> to_tlbr ar h t = Inr (h2, b)
    \<and> length (elems h1 a) = 4 \<and> length (elems h2 b) = 4
    \<and> elems h1 a ! 2 = amul ar (elems h (mean t) ! 2) (elems h (mean t) ! 3)
    \<and> elems h1 a ! 3 = elems h (mean t) ! 3
    \<and> elems h1 a ! 0 = asub ar (elems h (mean t) ! 0) (ahalf ar (elems h1 a ! 2))
    \<and> elems h1 a ! 1 = asub ar (elems h (mean t) ! 1) (ahalf ar (elems h1 a ! 3))
    \<and> elems h2 b ! 0 = elems h1 a ! 0
    \<and> elems h2 b ! 1 = elems h1 a ! 1
    \<and> elems h2 b ! 2 = aadd ar (elems h1 a ! 0) (elems h1 a ! 2)
    \<and> elems h2 b ! 3 = aadd ar (elems h1 a ! 1) (elems h1 a ! 3)
    \<and> ((\<forall>p q. asub ar (aadd ar p q) p = q) \<longrightarrow>
          asub ar (elems h2 b ! 2) (elems h2 b ! 0) = elems h1 a ! 2
        \<and> asub ar (elems h2 b ! 3) (elems h2 b ! 1) = elems h1 a ! 3)
    \<and> take (length h) h1 = h \<and> take (length h) h2 = h
    \<and> elems h1 (mean t) = elems h (mean t) \<and> elems h2 (mean t) = elems h (mean t)"
  proof (intro exI conjI)
    let ?m = "elems h (mean t)"
    let ?w = "amul ar (?m ! 2) (?m ! 3)"
    let ?x = "asub ar (?m ! 0) (ahalf ar ?w)"
    let ?y = "asub ar (?m ! 1) (ahalf ar (?m ! 3))"
    let ?ret = "\<lparr> buf = length h, off = 0, len = 4 \<rparr>"
    let ?h1 = "h @ [[?x, ?y, ?w, ?m ! 3]]"
    let ?h2 = "h @ [[?x, ?y, aadd ar ?x ?w, aadd ar ?y (?m ! 3)]]"
    have e1: "elems ?h1 ?ret = [?x, ?y, ?w, ?m ! 3]"
      and e2: "elems ?h2 ?ret = [?x, ?y, aadd ar ?x ?w, aadd ar ?y (?m ! 3)]"
      by (simp_all add: elems_def)
    show "to_tlwh ar h t = Inr (?h1, ?ret)"
      by (rule to_tlwh_value [OF v l])
    show "to_tlbr ar h t = Inr (?h2, ?ret)"
      by (rule to_tlbr_value [OF v l])
    show "length (elems ?h1 ?ret) = 4" "length (elems ?h2 ?ret) = 4"
      by (simp_all only: e1 e2) simp_all
    show "elems ?h1 ?ret ! 2 = ?w" "elems ?h1 ?ret ! 3 = ?m ! 3"
      "elems ?h1 ?ret ! 0 = asub ar (?m ! 0) (ahalf ar (elems ?h1 ?ret ! 2))"
      "elems ?h1 ?ret ! 1 = asub ar (?m ! 1) (ahalf ar (elems ?h1 ?ret ! 3))"
      by (simp_all only: e1) simp_all
    show "elems ?h2 ?ret ! 0 = elems ?h1 ?ret ! 0"
      "elems ?h2 ?ret ! 1 = elems ?h1 ?ret ! 1"
      "elems ?h2 ?ret ! 2 = aadd ar (elems ?h1 ?ret ! 0) (elems ?h1 ?ret ! 2)"
      "elems ?h2 ?ret ! 3 = aadd ar (elems ?h1 ?ret ! 1) (elems ?h1 ?ret ! 3)"
      by (simp_all only: e1 e2) simp_all
    show "(\<forall>p q. asub ar (aadd ar p q) p = q) \<longrightarrow>
          asub ar (elems ?h2 ?ret ! 2) (elems ?h2 ?ret ! 0) = elems ?h1 ?ret ! 2
        \<and> asub ar (elems ?h2 ?ret ! 3) (elems ?h2 ?ret ! 1) = elems ?h1 ?ret ! 3"
      by (simp only: e1 e2) simp
    show "take (length h) ?h1 = h" "take (length h) ?h2 = h"
      by simp_all
    show "elems ?h1 (mean t) = ?m" "elems ?h2 (mean t) = ?m"
      by (simp_all add: elems_append_old [OF o])
  qed
  have ex: "\<forall>p q. asub exact (aadd exact p q) p = q"
    by (simp add: exact_def)
  from main ex show ?thesis
    by (rule conjI)
qed

text \<open>
  In exact arithmetic, centre \<open>(1, 1)\<close> with aspect ratio 1 and height \<open>1/10\<close> gives the
  top-left form \<open>(19/20, 19/20, 1/10, 1/10)\<close> and the corner form
  \<open>(19/20, 19/20, 21/20, 21/20)\<close>.
\<close>

theorem bbox_accessors_witness:
  "valid [mean_exact] (mean track8) \<and> 4 \<le> len (mean track8)
   \<and> (\<exists>h1 a h2 b.
        to_tlwh exact [mean_exact] track8 = Inr (h1, a)
      \<and> to_tlbr exact [mean_exact] track8 = Inr (h2, b)
      \<and> elems h1 a = [19 / 20, 19 / 20, 1 / 10, 1 / 10]
      \<and> elems h2 b = [19 / 20, 19 / 20, 21 / 20, 21 / 20]
      \<and> asub exact (elems h2 b ! 2) (elems h2 b ! 0) = elems h1 a ! 2
      \<and> asub exact (elems h2 b ! 3) (elems h2 b ! 1) = elems h1 a ! 3
      \<and> elems h1 (mean track8) = mean_exact
      \<and> elems h2 (mean track8) = mean_exact)"
proof -
  have v: "valid [mean_exact] (mean track8)" and l: "4 \<le> len (mean track8)"
    by (simp_all add: valid_def track8_def init_def mean_exact_def)
  have m: "elems [mean_exact] (mean track8) = mean_exact"
    by (simp add: elems_def track8_def init_def mean_exact_def)
  from bbox_accessors [OF v l, of exact]
  obtain h1 a h2 b where
    r: "to_tlwh exact [mean_exact] track8 = Inr (h1, a)"
       "to_tlbr exact [mean_exact] track8 = Inr (h2, b)"
       "asub exact (elems h2 b ! 2) (elems h2 b ! 0) = elems h1 a ! 2"
       "asub exact (elems h2 b ! 3) (elems h2 b ! 1) = elems h1 a ! 3"
       "elems h1 (mean track8) = elems [mean_exact] (mean track8)"
       "elems h2 (mean track8) = elems [mean_exact] (mean track8)"
    by blast
  have "to_tlwh exact [mean_exact] track8 =
      Inr ([mean_exact, [19 / 20, 19 / 20, 1 / 10, 1 / 10]], \<lparr> buf = 1, off = 0, len = 4 \<rparr>)"
    by (simp add: to_tlwh_value [OF v l] m) (simp add: mean_exact_def exact_def)
  with r(1) have w: "elems h1 a = [19 / 20, 19 / 20, 1 / 10, 1 / 10]"
    by (auto simp: elems_def)
  have "to_tlbr exact [mean_exact] track8 =
      Inr ([mean_exact, [19 / 20, 19 / 20, 21 / 20, 21 / 20]], \<lparr> buf = 1, off = 0, len = 4 \<rparr>)"
    by (simp add: to_tlbr_value [OF v l] m) (simp add: mean_exact_def exact_def)
  with r(2) have c: "elems h2 b = [19 / 20, 19 / 20, 21 / 20, 21 / 20]"
    by (auto simp: elems_def)
  from v l r w c m show ?thesis
    by (intro conjI exI [of _ h1] exI [of _ a] exI [of _ h2] exI [of _ b]) simp_all
qed

text \<open>
  C8, as the specification states it, says that the corner form's maximum minus its minimum
  equals the top-left form's width and height. The elements are floats. For the same box in
  binary64 the top-left form is \<open>(0.95, 0.95, 0.1, 0.1)\<close> and the corner form
  \<open>(0.95, 0.95, 1.05, 1.05)\<close>, each the float nearest to that decimal, and \<open>1.05 - 0.95\<close>
  is \<open>225179981368525 * 2 ^ -51\<close>, which is not the width \<open>3602879701896397 * 2 ^ -55\<close>: it
  is larger by \<open>3 * 2 ^ -55\<close>.
\<close>

theorem bbox_difference_counterexample:
  "to_tlwh binary64 [mean64] track8 =
     Inr ([mean64, [(4278419646001971, - 52), (4278419646001971, - 52),
                    (3602879701896397, - 55), (3602879701896397, - 55)]],
          \<lparr> buf = 1, off = 0, len = 4 \<rparr>)
   \<and> to_tlbr binary64 [mean64] track8 =
     Inr ([mean64, [(4278419646001971, - 52), (4278419646001971, - 52),
                    (4728779608739021, - 52), (4728779608739021, - 52)]],
          \<lparr> buf = 1, off = 0, len = 4 \<rparr>)
   \<and> asub binary64 (4728779608739021, - 52) (4278419646001971, - 52) = (225179981368525, - 51)
   \<and> asub binary64 (4728779608739021, - 52) (4278419646001971, - 52) \<noteq> (3602879701896397, - 55)
   \<and> f64_val (225179981368525, - 51) \<noteq> f64_val (3602879701896397, - 55)"
proof -
  have a: "to_tlwh binary64 [mean64] track8 =
     Inr ([mean64, [(4278419646001971, - 52), (4278419646001971, - 52),
                    (3602879701896397, - 55), (3602879701896397, - 55)]],
          \<lparr> buf = 1, off = 0, len = 4 \<rparr>)"
    by code_simp
  have b: "to_tlbr binary64 [mean64] track8 =
     Inr ([mean64, [(4278419646001971, - 52), (4278419646001971, - 52),
                    (4728779608739021, - 52), (4728779608739021, - 52)]],
          \<lparr> buf = 1, off = 0, len = 4 \<rparr>)"
    by code_simp
  have c: "asub binary64 (4728779608739021, - 52) (4278419646001971, - 52)
             = (225179981368525, - 51)"
    by code_simp
  have d: "f64_val (225179981368525, - 51) \<noteq> f64_val (3602879701896397, - 55)"
    by (simp add: f64_val_def power_int_minus field_simps)
  from a b c d show ?thesis
    by simp
qed

end
